theory Spec2Isabelle
  imports Main "HOL-Library.Word"
begin

section \<open>os.h: a shallow embedding of both platform backends\<close>

text \<open>
  \<^verbatim>\<open>os.h\<close> offers four operations, \<^verbatim>\<open>Alloc\<close>, \<^verbatim>\<open>Free\<close>, \<^verbatim>\<open>MapFile\<close> and
  \<^verbatim>\<open>UnmapFile\<close>, each written twice: once under \<^verbatim>\<open>#ifdef _WIN32\<close> and once under
  \<^verbatim>\<open>#elif defined(__unix__)\<close>. Every operation is a straight-line sequence of native
  calls with early returns, so each one is embedded as a function that
  \<^item> takes the compile-time configuration (the macros \<^verbatim>\<open>LARGE_PAGES\<close> and \<^verbatim>\<open>UNICODE\<close>),
  \<^item> takes the native platform as a record of functions from the arguments of a native
    call to its result (the operating system is not part of the source, so nothing is
    assumed about it: theorems quantify over every such record),
  \<^item> takes, for an operation with an output parameter, the value the caller's struct held
    before the call, and
  \<^item> returns the \<^verbatim>\<open>Bool\<close> result, the value of the caller's struct after the call, and
    the trace: the native calls made and the \<^verbatim>\<open>TRACE_ERROR\<close> expansions reached, in
    program order.

  Pointers, handles, \<^verbatim>\<open>SIZE_T\<close> and \<^verbatim>\<open>size_t\<close> are 64 bits wide (the LLP64 and LP64
  targets), \<^verbatim>\<open>DWORD\<close> is 32 bits wide, and a C \<^verbatim>\<open>int\<close> that is only compared with a
  constant is an \<^typ>\<open>int\<close>.
\<close>

subsection \<open>Data types of the header\<close>

type_synonym Uint64 = "64 word"
type_synonym DWORD = "32 word"
type_synonym ptr = "64 word"
type_synonym HANDLE = "64 word"

text \<open>\<^verbatim>\<open>typedef struct { Uint8 *base; Uint64 size; } Bytes;\<close>\<close>

record Bytes =
  base :: ptr
  size' :: Uint64

text \<open>The macros that select code at compile time.\<close>

record config =
  LARGE_PAGES :: bool
  UNICODE :: bool

text \<open>What a call of one of the four operations leaves behind.\<close>

record 'e run =
  ret :: bool
  trace :: "'e list"

record 'e run_out = "'e run" +
  out :: Bytes

text \<open>Constants of the platform headers that the source compares results with.\<close>

definition NULL :: ptr where
  "NULL = 0"

definition INVALID_HANDLE_VALUE :: HANDLE where
  "INVALID_HANDLE_VALUE = - 1"

definition INVALID_FILE_SIZE :: DWORD where
  "INVALID_FILE_SIZE = 0xFFFFFFFF"

definition MAP_FAILED :: ptr where
  "MAP_FAILED = - 1"

subsection \<open>The Win32 backend\<close>

text \<open>
  Flag words such as \<^verbatim>\<open>MEM_RESERVE | MEM_COMMIT | largePages\<close> are kept symbolic: the
  list of the flags that are or-ed together, where a \<^verbatim>\<open>largePages\<close> of 0 adds none.
\<close>

datatype wflag =
    MEM_RESERVE | MEM_COMMIT | MEM_LARGE_PAGES | MEM_RELEASE
  | PAGE_READWRITE | PAGE_READONLY | SEC_LARGE_PAGES | FILE_MAP_READ

text \<open>
  The native calls of the Win32 backend. \<^verbatim>\<open>GetFileSize\<close> is called twice by \<^verbatim>\<open>MapFile\<close>
  with the same handle; its first argument here is the ordinal of the query (0 or 1), so
  that the two queries may answer differently. The arguments that are literal constants
  in every call (\<^verbatim>\<open>GENERIC_READ\<close>, \<^verbatim>\<open>OPEN_EXISTING\<close>, the zero offsets, ...) are left out.
\<close>

record natives_win32 =
  os_VirtualAlloc :: "ptr \<Rightarrow> Uint64 \<Rightarrow> wflag list \<Rightarrow> wflag list \<Rightarrow> ptr"
  os_VirtualFree :: "ptr \<Rightarrow> Uint64 \<Rightarrow> wflag list \<Rightarrow> int"
  os_MultiByteToWideChar :: "string \<Rightarrow> int \<times> string"
  os_CreateFile :: "string \<Rightarrow> HANDLE"
  os_GetFileSize :: "nat \<Rightarrow> HANDLE \<Rightarrow> DWORD"
  os_CreateFileMapping :: "HANDLE \<Rightarrow> wflag list \<Rightarrow> HANDLE"
  os_MapViewOfFile :: "HANDLE \<Rightarrow> wflag list \<Rightarrow> ptr"
  os_UnmapViewOfFile :: "ptr \<Rightarrow> int"
  os_GetLastError :: DWORD
  os_FormatMessage :: "DWORD \<Rightarrow> DWORD \<times> string"
  os_WideCharToMultiByte :: "string \<Rightarrow> string"

text \<open>One entry of a trace: a native call with its arguments and result, or \<^verbatim>\<open>TRACE_ERROR\<close>.\<close>

datatype event_win32 =
    W_VirtualAlloc Uint64 "wflag list" ptr
  | W_VirtualFree ptr int
  | W_MultiByteToWideChar string int
  | W_CreateFile string HANDLE
  | W_GetFileSize HANDLE DWORD
  | W_CloseHandle HANDLE
  | W_CreateFileMapping HANDLE "wflag list" HANDLE
  | W_MapViewOfFile HANDLE ptr
  | W_UnmapViewOfFile ptr int
  | W_FormatMessage DWORD DWORD
  | W_WideCharToMultiByte string
  | W_TRACE_ERROR string

text \<open>\<^verbatim>\<open>void TraceError()\<close>, lines 89-114.\<close>

definition TraceError :: "config \<Rightarrow> natives_win32 \<Rightarrow> event_win32 list" where
  "TraceError cfg n =
    (let code = os_GetLastError n;
         (sz, tstr) = os_FormatMessage n code
     in if sz = 0
        then [W_FormatMessage code sz,
              W_TRACE_ERROR ''Could not format a human readable error message'']
        else if UNICODE cfg
        then [W_FormatMessage code sz, W_WideCharToMultiByte tstr,
              W_TRACE_ERROR (os_WideCharToMultiByte n tstr)]
        else [W_FormatMessage code sz, W_TRACE_ERROR tstr])"

text \<open>\<^verbatim>\<open>Bool Alloc(Uint64 size, Bytes *bytes)\<close>, lines 116-138.\<close>

definition Alloc_win32 :: "config \<Rightarrow> natives_win32 \<Rightarrow> Uint64 \<Rightarrow> Bytes \<Rightarrow> event_win32 run_out" where
  "Alloc_win32 cfg n sz bytes =
    (let largePages = (if LARGE_PAGES cfg then [MEM_LARGE_PAGES] else []);
         flags = [MEM_RESERVE, MEM_COMMIT] @ largePages;
         b = os_VirtualAlloc n NULL sz flags [PAGE_READWRITE]
     in if b = NULL
        then \<lparr>ret = False, trace = W_VirtualAlloc sz flags b # TraceError cfg n, out = bytes\<rparr>
        else \<lparr>ret = True, trace = [W_VirtualAlloc sz flags b],
              out = bytes\<lparr>size' := sz, base := b\<rparr>\<rparr>)"

text \<open>\<^verbatim>\<open>Bool Free(Bytes bytes)\<close>, lines 140-147.\<close>

definition Free_win32 :: "config \<Rightarrow> natives_win32 \<Rightarrow> Bytes \<Rightarrow> event_win32 run" where
  "Free_win32 cfg n bytes =
    (let r = os_VirtualFree n (base bytes) 0 [MEM_RELEASE]
     in if r = 0
        then \<lparr>ret = False, trace = W_VirtualFree (base bytes) r # TraceError cfg n\<rparr>
        else \<lparr>ret = True, trace = [W_VirtualFree (base bytes) r]\<rparr>)"

text \<open>
  \<^verbatim>\<open>Bool MapFile(const char *filePath, Bytes *fileMap)\<close>, lines 149-222, in three
  pieces that follow the text of the function: \<open>MapFile_win32\<close> is the path conversion
  under \<^verbatim>\<open>#if defined(UNICODE)\<close> (lines 150-158), \<open>MapFile_win32_opened\<close> runs from
  \<^verbatim>\<open>CreateFile\<close> to the test for an empty file (lines 160-179), and
  \<open>MapFile_win32_mapped\<close> is the rest (lines 181-221). Each piece takes the trace so far.
\<close>

definition MapFile_win32_mapped ::
  "config \<Rightarrow> natives_win32 \<Rightarrow> HANDLE \<Rightarrow> Bytes \<Rightarrow> event_win32 list \<Rightarrow> event_win32 run_out" where
  "MapFile_win32_mapped cfg n hFile fileMap tr0 =
    (let largePages = (if LARGE_PAGES cfg then [SEC_LARGE_PAGES] else []);
         prot = [PAGE_READONLY] @ largePages;
         hMapping = os_CreateFileMapping n hFile prot;
         tr1 = tr0 @ [W_CreateFileMapping hFile prot hMapping]
     in if hMapping = NULL
        then \<lparr>ret = False, trace = tr1 @ TraceError cfg n @ [W_CloseHandle hFile],
              out = fileMap\<rparr>
        else
          let pMapView = os_MapViewOfFile n hMapping [FILE_MAP_READ];
              tr2 = tr1 @ [W_MapViewOfFile hMapping pMapView]
          in if pMapView = NULL
             then \<lparr>ret = False,
                   trace = tr2 @ TraceError cfg n @ [W_CloseHandle hMapping, W_CloseHandle hFile],
                   out = fileMap\<rparr>
             else
               let sz2 = os_GetFileSize n 1 hFile
               in \<lparr>ret = True,
                   trace = tr2 @ [W_GetFileSize hFile sz2, W_CloseHandle hMapping,
                                  W_CloseHandle hFile],
                   out = fileMap\<lparr>size' := ucast sz2, base := pMapView\<rparr>\<rparr>)"

definition MapFile_win32_opened ::
  "config \<Rightarrow> natives_win32 \<Rightarrow> string \<Rightarrow> Bytes \<Rightarrow> event_win32 list \<Rightarrow> event_win32 run_out" where
  "MapFile_win32_opened cfg n tFilePath fileMap tr0 =
    (let hFile = os_CreateFile n tFilePath;
         tr1 = tr0 @ [W_CreateFile tFilePath hFile]
     in if hFile = INVALID_HANDLE_VALUE
        then \<lparr>ret = False, trace = tr1 @ TraceError cfg n, out = fileMap\<rparr>
        else
          let sz1 = os_GetFileSize n 0 hFile;
              tr2 = tr1 @ [W_GetFileSize hFile sz1]
          in if sz1 = 0
             then \<lparr>ret = True, trace = tr2 @ [W_CloseHandle hFile],
                   out = fileMap\<lparr>size' := 0, base := NULL\<rparr>\<rparr>
             else MapFile_win32_mapped cfg n hFile fileMap tr2)"

definition MapFile_win32 :: "config \<Rightarrow> natives_win32 \<Rightarrow> string \<Rightarrow> Bytes \<Rightarrow> event_win32 run_out" where
  "MapFile_win32 cfg n filePath fileMap =
    (if UNICODE cfg
     then
       let (r, tFilePath) = os_MultiByteToWideChar n filePath
       in if r = 0
          then \<lparr>ret = False, trace = W_MultiByteToWideChar filePath r # TraceError cfg n,
                out = fileMap\<rparr>
          else MapFile_win32_opened cfg n tFilePath fileMap [W_MultiByteToWideChar filePath r]
     else MapFile_win32_opened cfg n filePath fileMap [])"

text \<open>\<^verbatim>\<open>Bool UnmapFile(Bytes fileMap)\<close>, lines 224-236.\<close>

definition UnmapFile_win32 :: "config \<Rightarrow> natives_win32 \<Rightarrow> Bytes \<Rightarrow> event_win32 run" where
  "UnmapFile_win32 cfg n fileMap =
    (if size' fileMap = 0
     then \<lparr>ret = True, trace = []\<rparr>
     else
       let pMapView = base fileMap;
           r = os_UnmapViewOfFile n pMapView
       in if r = 0
          then \<lparr>ret = False, trace = W_UnmapViewOfFile pMapView r # TraceError cfg n\<rparr>
          else \<lparr>ret = True, trace = [W_UnmapViewOfFile pMapView r]\<rparr>)"

subsection \<open>The Unix backend\<close>

datatype uflag = PROT_READ | PROT_WRITE | MAP_PRIVATE | MAP_ANONYMOUS | MAP_HUGETLB | O_RDONLY

text \<open>
  The native calls of the Unix backend. \<^verbatim>\<open>fstat\<close> returns its \<^verbatim>\<open>int\<close> result together
  with the \<^verbatim>\<open>st_size\<close> it stores (an \<^verbatim>\<open>off_t\<close>, held as its integer value);
  \<^verbatim>\<open>strerror(errno)\<close> is the message the platform has for the failure. No line
  of the Unix \<^verbatim>\<open>Free\<close> and \<^verbatim>\<open>UnmapFile\<close> is under a configuration macro; they take
  the configuration only to have the signature of their Win32 counterparts, whose
  \<^verbatim>\<open>TraceError\<close> reads \<^verbatim>\<open>UNICODE\<close>.
\<close>

record natives_unix =
  os_mmap :: "ptr \<Rightarrow> Uint64 \<Rightarrow> uflag list \<Rightarrow> uflag list \<Rightarrow> int \<Rightarrow> Uint64 \<Rightarrow> ptr"
  os_munmap :: "ptr \<Rightarrow> Uint64 \<Rightarrow> int"
  os_open :: "string \<Rightarrow> uflag list \<Rightarrow> int"
  os_fstat :: "int \<Rightarrow> int \<times> int"
  os_strerror :: string

datatype event_unix =
    U_mmap Uint64 "uflag list" "uflag list" int ptr
  | U_munmap ptr Uint64 int
  | U_open string int
  | U_fstat int int
  | U_close int
  | U_TRACE_ERROR string

text \<open>\<^verbatim>\<open>Bool Alloc(Uint64 size, Bytes *bytes)\<close>, lines 247-271.\<close>

definition Alloc_unix :: "config \<Rightarrow> natives_unix \<Rightarrow> Uint64 \<Rightarrow> Bytes \<Rightarrow> event_unix run_out" where
  "Alloc_unix cfg n sz bytes =
    (let largePages = (if LARGE_PAGES cfg then [MAP_HUGETLB] else []);
         flags = [MAP_PRIVATE, MAP_ANONYMOUS] @ largePages;
         b = os_mmap n NULL sz [PROT_READ, PROT_WRITE] flags (- 1) 0;
         tr = [U_mmap sz [PROT_READ, PROT_WRITE] flags (- 1) b]
     in if b = MAP_FAILED
        then \<lparr>ret = False, trace = tr @ [U_TRACE_ERROR (os_strerror n)], out = bytes\<rparr>
        else \<lparr>ret = True, trace = tr, out = bytes\<lparr>size' := sz, base := b\<rparr>\<rparr>)"

text \<open>\<^verbatim>\<open>Bool Free(Bytes bytes)\<close>, lines 273-280.\<close>

definition Free_unix :: "config \<Rightarrow> natives_unix \<Rightarrow> Bytes \<Rightarrow> event_unix run" where
  "Free_unix cfg n bytes =
    (let r = os_munmap n (base bytes) (size' bytes);
         tr = [U_munmap (base bytes) (size' bytes) r]
     in if r \<noteq> 0
        then \<lparr>ret = False, trace = tr @ [U_TRACE_ERROR (os_strerror n)]\<rparr>
        else \<lparr>ret = True, trace = tr\<rparr>)"

text \<open>
  \<^verbatim>\<open>Bool MapFile(const char *filePath, Bytes *fileMap)\<close>, lines 282-332.
  \<^verbatim>\<open>size_t size = st.st_size;\<close> converts the signed \<^verbatim>\<open>off_t\<close> to 64 unsigned bits.
\<close>

definition MapFile_unix :: "config \<Rightarrow> natives_unix \<Rightarrow> string \<Rightarrow> Bytes \<Rightarrow> event_unix run_out" where
  "MapFile_unix cfg n filePath fileMap =
    (let fd = os_open n filePath [O_RDONLY];
         tr1 = [U_open filePath fd]
     in if fd = - 1
        then \<lparr>ret = False, trace = tr1 @ [U_TRACE_ERROR (os_strerror n)], out = fileMap\<rparr>
        else
          let (r, st_size) = os_fstat n fd;
              tr2 = tr1 @ [U_fstat fd r]
          in if r = - 1
             then \<lparr>ret = False, trace = tr2 @ [U_TRACE_ERROR (os_strerror n), U_close fd],
                   out = fileMap\<rparr>
             else
               let sz = (word_of_int st_size :: Uint64)
               in if sz = 0
                  then \<lparr>ret = True, trace = tr2 @ [U_close fd],
                        out = fileMap\<lparr>size' := 0, base := NULL\<rparr>\<rparr>
                  else
                    let largePages = (if LARGE_PAGES cfg then [MAP_HUGETLB] else []);
                        flags = [MAP_PRIVATE] @ largePages;
                        data = os_mmap n NULL sz [PROT_READ] flags fd 0;
                        tr3 = tr2 @ [U_mmap sz [PROT_READ] flags fd data]
                    in if data = MAP_FAILED
                       then \<lparr>ret = False,
                             trace = tr3 @ [U_TRACE_ERROR (os_strerror n), U_close fd],
                             out = fileMap\<rparr>
                       else \<lparr>ret = True, trace = tr3 @ [U_close fd],
                             out = fileMap\<lparr>size' := sz, base := data\<rparr>\<rparr>)"

text \<open>\<^verbatim>\<open>Bool UnmapFile(Bytes fileMap)\<close>, lines 334-345.\<close>

definition UnmapFile_unix :: "config \<Rightarrow> natives_unix \<Rightarrow> Bytes \<Rightarrow> event_unix run" where
  "UnmapFile_unix cfg n fileMap =
    (if base fileMap = NULL
     then \<lparr>ret = True, trace = []\<rparr>
     else
       let r = os_munmap n (base fileMap) (size' fileMap);
           tr = [U_munmap (base fileMap) (size' fileMap) r]
       in if r = - 1
          then \<lparr>ret = False, trace = tr @ [U_TRACE_ERROR (os_strerror n)]\<rparr>
          else \<lparr>ret = True, trace = tr\<rparr>)"

subsection \<open>Reading a trace\<close>

text \<open>The \<^verbatim>\<open>TRACE_ERROR\<close> expansions that a call reached.\<close>

fun is_report_win32 :: "event_win32 \<Rightarrow> bool" where
  "is_report_win32 (W_TRACE_ERROR _) = True"
| "is_report_win32 _ = False"

fun is_report_unix :: "event_unix \<Rightarrow> bool" where
  "is_report_unix (U_TRACE_ERROR _) = True"
| "is_report_unix _ = False"

definition reports :: "('e \<Rightarrow> bool) \<Rightarrow> 'e list \<Rightarrow> nat" where
  "reports is_report tr = length (filter is_report tr)"

text \<open>
  A native call that failed, by the test the source applies to its result. The source
  applies no test to the result of \<^verbatim>\<open>GetFileSize\<close>, \<^verbatim>\<open>CloseHandle\<close> or \<^verbatim>\<open>close\<close>.
\<close>

fun failed_win32 :: "event_win32 \<Rightarrow> bool" where
  "failed_win32 (W_VirtualAlloc _ _ p) = (p = NULL)"
| "failed_win32 (W_VirtualFree _ r) = (r = 0)"
| "failed_win32 (W_MultiByteToWideChar _ r) = (r = 0)"
| "failed_win32 (W_CreateFile _ h) = (h = INVALID_HANDLE_VALUE)"
| "failed_win32 (W_CreateFileMapping _ _ h) = (h = NULL)"
| "failed_win32 (W_MapViewOfFile _ p) = (p = NULL)"
| "failed_win32 (W_UnmapViewOfFile _ r) = (r = 0)"
| "failed_win32 _ = False"

fun failed_unix :: "event_unix \<Rightarrow> bool" where
  "failed_unix (U_mmap _ _ _ _ p) = (p = MAP_FAILED)"
| "failed_unix (U_munmap _ _ r) = (r \<noteq> 0)"
| "failed_unix (U_open _ fd) = (fd = - 1)"
| "failed_unix (U_fstat _ r) = (r = - 1)"
| "failed_unix _ = False"

text \<open>What may follow a failed native call: the report and the release of what is open.\<close>

fun aftermath_win32 :: "event_win32 \<Rightarrow> bool" where
  "aftermath_win32 (W_FormatMessage _ _) = True"
| "aftermath_win32 (W_WideCharToMultiByte _) = True"
| "aftermath_win32 (W_TRACE_ERROR _) = True"
| "aftermath_win32 (W_CloseHandle _) = True"
| "aftermath_win32 _ = False"


text \<open>No retry: once a native call has failed, only its aftermath follows.\<close>

fun no_retry :: "('e \<Rightarrow> bool) \<Rightarrow> ('e \<Rightarrow> bool) \<Rightarrow> 'e list \<Rightarrow> bool" where
  "no_retry failed aftermath [] = True"
| "no_retry failed aftermath (e # es) =
     ((if failed e then list_all aftermath es else True) \<and> no_retry failed aftermath es)"

text \<open>
  The resources a trace leaves open: file handles and mapping objects (both closed by
  \<^verbatim>\<open>CloseHandle\<close>), file descriptors, and mapped or allocated regions.
\<close>

datatype resource = Handle HANDLE | Descriptor int | Region ptr

fun track_win32 :: "resource list \<Rightarrow> event_win32 \<Rightarrow> resource list" where
  "track_win32 rs (W_VirtualAlloc _ _ p) = (if p = NULL then rs else Region p # rs)"
| "track_win32 rs (W_VirtualFree p r) = (if r = 0 then rs else remove1 (Region p) rs)"
| "track_win32 rs (W_CreateFile _ h) = (if h = INVALID_HANDLE_VALUE then rs else Handle h # rs)"
| "track_win32 rs (W_CreateFileMapping _ _ h) = (if h = NULL then rs else Handle h # rs)"
| "track_win32 rs (W_MapViewOfFile _ p) = (if p = NULL then rs else Region p # rs)"
| "track_win32 rs (W_UnmapViewOfFile p r) = (if r = 0 then rs else remove1 (Region p) rs)"
| "track_win32 rs (W_CloseHandle h) = remove1 (Handle h) rs"
| "track_win32 rs _ = rs"

fun track_unix :: "resource list \<Rightarrow> event_unix \<Rightarrow> resource list" where
  "track_unix rs (U_mmap _ _ _ _ p) = (if p = MAP_FAILED then rs else Region p # rs)"
| "track_unix rs (U_munmap p _ r) = (if r \<noteq> 0 then rs else remove1 (Region p) rs)"
| "track_unix rs (U_open _ fd) = (if fd = - 1 then rs else Descriptor fd # rs)"
| "track_unix rs (U_close fd) = remove1 (Descriptor fd) rs"
| "track_unix rs _ = rs"

definition held_win32 :: "event_win32 list \<Rightarrow> resource list" where
  "held_win32 tr = foldl track_win32 [] tr"

definition held_unix :: "event_unix list \<Rightarrow> resource list" where
  "held_unix tr = foldl track_unix [] tr"

text \<open>The native calls that map memory, and the native calls that release a region.\<close>

fun is_mapping_call_win32 :: "event_win32 \<Rightarrow> bool" where
  "is_mapping_call_win32 (W_VirtualAlloc _ _ _) = True"
| "is_mapping_call_win32 (W_CreateFileMapping _ _ _) = True"
| "is_mapping_call_win32 (W_MapViewOfFile _ _) = True"
| "is_mapping_call_win32 _ = False"

fun is_mapping_call_unix :: "event_unix \<Rightarrow> bool" where
  "is_mapping_call_unix (U_mmap _ _ _ _ _) = True"
| "is_mapping_call_unix _ = False"

text \<open>The native calls that take the page-size flag, and whether they ask for large pages.\<close>

fun is_page_request_win32 :: "event_win32 \<Rightarrow> bool" where
  "is_page_request_win32 (W_VirtualAlloc _ _ _) = True"
| "is_page_request_win32 (W_CreateFileMapping _ _ _) = True"
| "is_page_request_win32 _ = False"

fun large_request_win32 :: "event_win32 \<Rightarrow> bool" where
  "large_request_win32 (W_VirtualAlloc _ fl _) = (MEM_LARGE_PAGES \<in> set fl)"
| "large_request_win32 (W_CreateFileMapping _ fl _) = (SEC_LARGE_PAGES \<in> set fl)"
| "large_request_win32 _ = False"

fun large_request_unix :: "event_unix \<Rightarrow> bool" where
  "large_request_unix (U_mmap _ _ fl _ _) = (MAP_HUGETLB \<in> set fl)"
| "large_request_unix _ = False"

fun is_release_call_win32 :: "event_win32 \<Rightarrow> bool" where
  "is_release_call_win32 (W_VirtualFree _ _) = True"
| "is_release_call_win32 (W_UnmapViewOfFile _ _) = True"
| "is_release_call_win32 _ = False"

fun is_release_call_unix :: "event_unix \<Rightarrow> bool" where
  "is_release_call_unix (U_munmap _ _ _) = True"
| "is_release_call_unix _ = False"



text \<open>
  A failing call is clean: the caller's struct still holds \<open>bytes\<close>, the value from before
  the call, and nothing that the call opened is still open.
\<close>

definition clean_failure_win32 :: "Bytes \<Rightarrow> event_win32 run_out \<Rightarrow> bool" where
  "clean_failure_win32 bytes r = (\<not> ret r \<longrightarrow> out r = bytes \<and> held_win32 (trace r) = [])"

definition clean_failure_unix :: "Bytes \<Rightarrow> event_unix run_out \<Rightarrow> bool" where
  "clean_failure_unix bytes r = (\<not> ret r \<longrightarrow> out r = bytes \<and> held_unix (trace r) = [])"

text \<open>
  No fallback to standard pages: the call makes at most one native call that takes the
  page-size flag, that call asks for large pages, and if it fails the result is \<^verbatim>\<open>FALSE\<close>.
\<close>

definition no_fallback_win32 :: "event_win32 run_out \<Rightarrow> bool" where
  "no_fallback_win32 r =
     (length (filter is_page_request_win32 (trace r)) \<le> 1
      \<and> list_all large_request_win32 (filter is_page_request_win32 (trace r))
      \<and> (list_ex failed_win32 (filter is_page_request_win32 (trace r)) \<longrightarrow> \<not> ret r))"

definition no_fallback_unix :: "event_unix run_out \<Rightarrow> bool" where
  "no_fallback_unix r =
     (length (filter is_mapping_call_unix (trace r)) \<le> 1
      \<and> list_all large_request_unix (filter is_mapping_call_unix (trace r))
      \<and> (list_ex failed_unix (filter is_mapping_call_unix (trace r)) \<longrightarrow> \<not> ret r))"

text \<open>What a caller observes of a call: the result, the reports and the output struct.\<close>

definition observed :: "('e \<Rightarrow> bool) \<Rightarrow> ('e, 'a) run_scheme \<Rightarrow> bool \<times> nat" where
  "observed is_report r = (ret r, reports is_report (trace r))"

definition observed_out :: "('e \<Rightarrow> bool) \<Rightarrow> 'e run_out \<Rightarrow> bool \<times> nat \<times> Bytes" where
  "observed_out is_report r = (ret r, reports is_report (trace r), out r)"

subsection \<open>The native results that a call meets\<close>

text \<open>
  The results of the native calls at the arguments the source passes them, under the names
  of the source's local variables. Hypotheses about the platform are stated with them.
\<close>

definition base_win32 :: "config \<Rightarrow> natives_win32 \<Rightarrow> Uint64 \<Rightarrow> ptr" where
  "base_win32 cfg n sz =
     os_VirtualAlloc n NULL sz
       ([MEM_RESERVE, MEM_COMMIT] @ (if LARGE_PAGES cfg then [MEM_LARGE_PAGES] else []))
       [PAGE_READWRITE]"

definition base_unix :: "config \<Rightarrow> natives_unix \<Rightarrow> Uint64 \<Rightarrow> ptr" where
  "base_unix cfg n sz =
     os_mmap n NULL sz [PROT_READ, PROT_WRITE]
       ([MAP_PRIVATE, MAP_ANONYMOUS] @ (if LARGE_PAGES cfg then [MAP_HUGETLB] else []))
       (- 1) 0"

definition path_converted :: "config \<Rightarrow> natives_win32 \<Rightarrow> string \<Rightarrow> bool" where
  "path_converted cfg n filePath =
     (if UNICODE cfg then fst (os_MultiByteToWideChar n filePath) \<noteq> 0 else True)"

definition tFilePath :: "config \<Rightarrow> natives_win32 \<Rightarrow> string \<Rightarrow> string" where
  "tFilePath cfg n filePath =
     (if UNICODE cfg then snd (os_MultiByteToWideChar n filePath) else filePath)"

definition hFile :: "config \<Rightarrow> natives_win32 \<Rightarrow> string \<Rightarrow> HANDLE" where
  "hFile cfg n filePath = os_CreateFile n (tFilePath cfg n filePath)"

definition hMapping :: "config \<Rightarrow> natives_win32 \<Rightarrow> string \<Rightarrow> HANDLE" where
  "hMapping cfg n filePath =
     os_CreateFileMapping n (hFile cfg n filePath)
       ([PAGE_READONLY] @ (if LARGE_PAGES cfg then [SEC_LARGE_PAGES] else []))"

definition pMapView :: "config \<Rightarrow> natives_win32 \<Rightarrow> string \<Rightarrow> ptr" where
  "pMapView cfg n filePath = os_MapViewOfFile n (hMapping cfg n filePath) [FILE_MAP_READ]"

definition fd_of :: "natives_unix \<Rightarrow> string \<Rightarrow> int" where
  "fd_of n filePath = os_open n filePath [O_RDONLY]"

definition fstat_of :: "natives_unix \<Rightarrow> string \<Rightarrow> int" where
  "fstat_of n filePath = fst (os_fstat n (fd_of n filePath))"

definition st_size_of :: "natives_unix \<Rightarrow> string \<Rightarrow> int" where
  "st_size_of n filePath = snd (os_fstat n (fd_of n filePath))"

definition data_of :: "config \<Rightarrow> natives_unix \<Rightarrow> string \<Rightarrow> ptr" where
  "data_of cfg n filePath =
     os_mmap n NULL (word_of_int (st_size_of n filePath)) [PROT_READ]
       ([MAP_PRIVATE] @ (if LARGE_PAGES cfg then [MAP_HUGETLB] else []))
       (fd_of n filePath) 0"

subsection \<open>Platforms that present the same situation\<close>

text \<open>
  When a Win32 platform and a Unix platform answer alike. For \<^verbatim>\<open>Alloc\<close>: both refuse, or
  both grant the same address. For \<^verbatim>\<open>Free\<close> and \<^verbatim>\<open>UnmapFile\<close>: the native release
  fails on both or on neither. For \<^verbatim>\<open>MapFile\<close>: the file opens on both or on neither;
  if it opens, \<^verbatim>\<open>fstat\<close> succeeds and stores the size that both \<^verbatim>\<open>GetFileSize\<close>
  queries answer; and if that size is not zero, the mapping fails on both (on Win32 at
  either of its two steps) or gives the same address on both.
\<close>

definition alloc_alike :: "config \<Rightarrow> natives_win32 \<Rightarrow> natives_unix \<Rightarrow> Uint64 \<Rightarrow> bool" where
  "alloc_alike cfg nw nu sz =
     (if base_win32 cfg nw sz = NULL then base_unix cfg nu sz = MAP_FAILED
      else base_unix cfg nu sz \<noteq> MAP_FAILED \<and> base_unix cfg nu sz = base_win32 cfg nw sz)"

definition free_alike :: "natives_win32 \<Rightarrow> natives_unix \<Rightarrow> Bytes \<Rightarrow> bool" where
  "free_alike nw nu bytes =
     ((os_VirtualFree nw (base bytes) 0 [MEM_RELEASE] = 0)
      = (os_munmap nu (base bytes) (size' bytes) \<noteq> 0))"

definition unmap_alike :: "natives_win32 \<Rightarrow> natives_unix \<Rightarrow> Bytes \<Rightarrow> bool" where
  "unmap_alike nw nu fileMap =
     ((os_UnmapViewOfFile nw (base fileMap) = 0)
      = (os_munmap nu (base fileMap) (size' fileMap) = - 1))"

definition view_alike :: "config \<Rightarrow> natives_win32 \<Rightarrow> natives_unix \<Rightarrow> string \<Rightarrow> bool" where
  "view_alike cfg nw nu filePath =
     (if hMapping cfg nw filePath = NULL \<or> pMapView cfg nw filePath = NULL
      then data_of cfg nu filePath = MAP_FAILED
      else data_of cfg nu filePath \<noteq> MAP_FAILED
         \<and> data_of cfg nu filePath = pMapView cfg nw filePath)"

definition size_alike :: "config \<Rightarrow> natives_win32 \<Rightarrow> natives_unix \<Rightarrow> string \<Rightarrow> bool" where
  "size_alike cfg nw nu filePath =
     (fstat_of nu filePath \<noteq> - 1
      \<and> (word_of_int (st_size_of nu filePath) :: Uint64)
          = ucast (os_GetFileSize nw 0 (hFile cfg nw filePath))
      \<and> os_GetFileSize nw 1 (hFile cfg nw filePath)
          = os_GetFileSize nw 0 (hFile cfg nw filePath))"

definition file_alike :: "config \<Rightarrow> natives_win32 \<Rightarrow> natives_unix \<Rightarrow> string \<Rightarrow> bool" where
  "file_alike cfg nw nu filePath =
     (if fd_of nu filePath = - 1
      then \<not> (path_converted cfg nw filePath \<and> hFile cfg nw filePath \<noteq> INVALID_HANDLE_VALUE)
      else path_converted cfg nw filePath \<and> hFile cfg nw filePath \<noteq> INVALID_HANDLE_VALUE
         \<and> size_alike cfg nw nu filePath
         \<and> (if os_GetFileSize nw 0 (hFile cfg nw filePath) = 0 then True
            else view_alike cfg nw nu filePath))"

subsection \<open>Concrete platforms\<close>

text \<open>
  Platforms whose native calls answer with fixed results, for evaluating the operations.
  \<open>win32_platform\<close> takes the results of \<^verbatim>\<open>VirtualAlloc\<close>, \<^verbatim>\<open>VirtualFree\<close>,
  \<^verbatim>\<open>CreateFile\<close>, the two \<^verbatim>\<open>GetFileSize\<close> queries, \<^verbatim>\<open>CreateFileMapping\<close>,
  \<^verbatim>\<open>MapViewOfFile\<close> and \<^verbatim>\<open>UnmapViewOfFile\<close>; \<open>unix_platform\<close> takes the results of
  \<^verbatim>\<open>mmap\<close>, \<^verbatim>\<open>munmap\<close>, \<^verbatim>\<open>open\<close> and \<^verbatim>\<open>fstat\<close> and the \<^verbatim>\<open>st_size\<close> it stores.
\<close>

definition cfg_plain :: config where
  "cfg_plain = \<lparr>LARGE_PAGES = False, UNICODE = False\<rparr>"

definition cfg_large :: config where
  "cfg_large = \<lparr>LARGE_PAGES = True, UNICODE = False\<rparr>"

definition cfg_unicode :: config where
  "cfg_unicode = \<lparr>LARGE_PAGES = False, UNICODE = True\<rparr>"

definition win32_platform ::
  "ptr \<Rightarrow> int \<Rightarrow> HANDLE \<Rightarrow> DWORD \<Rightarrow> DWORD \<Rightarrow> HANDLE \<Rightarrow> ptr \<Rightarrow> int \<Rightarrow> natives_win32" where
  "win32_platform alloc free file size0 size1 mapping view unmap =
    \<lparr>os_VirtualAlloc = (\<lambda>_ _ _ _. alloc),
     os_VirtualFree = (\<lambda>_ _ _. free),
     os_MultiByteToWideChar = (\<lambda>p. (int (length p) + 1, p)),
     os_CreateFile = (\<lambda>_. file),
     os_GetFileSize = (\<lambda>k _. if k = 0 then size0 else size1),
     os_CreateFileMapping = (\<lambda>_ _. mapping),
     os_MapViewOfFile = (\<lambda>_ _. view),
     os_UnmapViewOfFile = (\<lambda>_. unmap),
     os_GetLastError = 2,
     os_FormatMessage = (\<lambda>_. (42, ''The system cannot find the file specified.'')),
     os_WideCharToMultiByte = (\<lambda>s. s)\<rparr>"

definition unix_platform :: "ptr \<Rightarrow> int \<Rightarrow> int \<Rightarrow> int \<Rightarrow> int \<Rightarrow> natives_unix" where
  "unix_platform mapped unmapped fd stat_result st_size =
    \<lparr>os_mmap = (\<lambda>_ _ _ _ _ _. mapped),
     os_munmap = (\<lambda>_ _. unmapped),
     os_open = (\<lambda>_ _. fd),
     os_fstat = (\<lambda>_. (stat_result, st_size)),
     os_strerror = ''No such file or directory''\<rparr>"

text \<open>Platforms that grant standard pages at \<open>0x10000\<close> and refuse large pages.\<close>

definition win32_no_large_pages :: natives_win32 where
  "win32_no_large_pages =
    (win32_platform 0 1 0x40 4096 4096 0 0 1)
      \<lparr>os_VirtualAlloc := (\<lambda>_ _ fl _. if MEM_LARGE_PAGES \<in> set fl then 0 else 0x10000),
       os_CreateFileMapping := (\<lambda>_ fl. if SEC_LARGE_PAGES \<in> set fl then 0 else 0x44),
       os_MapViewOfFile := (\<lambda>_ _. 0x10000)\<rparr>"

definition unix_no_large_pages :: natives_unix where
  "unix_no_large_pages =
    (unix_platform 0 0 3 0 4096)
      \<lparr>os_mmap := (\<lambda>_ _ _ fl _ _. if MAP_HUGETLB \<in> set fl then - 1 else 0x10000)\<rparr>"

text \<open>A platform on which \<^verbatim>\<open>munmap\<close> succeeds for the length 4096 only.\<close>

definition unix_exact_length :: natives_unix where
  "unix_exact_length =
    (unix_platform 0x10000 0 3 0 4096)
      \<lparr>os_munmap := (\<lambda>_ len. if len = 4096 then 0 else - 1)\<rparr>"

text \<open>
  A Win32 platform holding a file of \<open>4294967297 = 2 ^ 32 + 1\<close> bytes. \<^verbatim>\<open>GetFileSize\<close>
  called with a null \<^verbatim>\<open>lpFileSizeHigh\<close>, as the source calls it, answers the low-order
  32 bits of the length.
\<close>

definition win32_large_file :: natives_win32 where
  "win32_large_file =
     win32_platform 0 1 0x40 (word_of_nat 4294967297) (word_of_nat 4294967297) 0x44 0x10000 1"

text \<open>
  A Win32 platform on which the size query fails (\<^verbatim>\<open>GetFileSize\<close> answers
  \<^verbatim>\<open>INVALID_FILE_SIZE\<close>) and every other native call succeeds, and a Unix platform on
  which \<^verbatim>\<open>fstat\<close> fails and every other native call succeeds.
\<close>

definition win32_size_query_fails :: natives_win32 where
  "win32_size_query_fails =
     win32_platform 0 1 0x40 INVALID_FILE_SIZE INVALID_FILE_SIZE 0x44 0x10000 1"

definition unix_size_query_fails :: natives_unix where
  "unix_size_query_fails = unix_platform 0x10000 0 3 (- 1) 0"

text \<open>Platforms on which every native call fails.\<close>

definition win32_refusing :: natives_win32 where
  "win32_refusing = win32_platform 0 0 (- 1) 0 0 0 0 0"

definition unix_refusing :: natives_unix where
  "unix_refusing = unix_platform (- 1) (- 1) (- 1) (- 1) 0"

text \<open>
  Platforms on which every native call succeeds, for a file of 4096 bytes that is mapped
  at \<open>0x10000\<close>.
\<close>

definition win32_granting :: natives_win32 where
  "win32_granting = win32_platform 0x10000 1 0x40 4096 4096 0x44 0x10000 1"

definition unix_granting :: natives_unix where
  "unix_granting = unix_platform 0x10000 0 3 0 4096"

text \<open>
  A Win32 platform and a Unix platform holding a file of \<open>4294967296 = 2 ^ 32\<close> bytes,
  on which every native call succeeds. \<^verbatim>\<open>GetFileSize\<close> called with a null
  \<^verbatim>\<open>lpFileSizeHigh\<close> answers the low-order 32 bits of the length; \<^verbatim>\<open>fstat\<close> stores
  the length.
\<close>

definition win32_file_of_4GiB :: natives_win32 where
  "win32_file_of_4GiB =
     win32_platform 0 1 0x40 (word_of_nat 4294967296) (word_of_nat 4294967296) 0x44 0x10000 1"

definition unix_file_of_4GiB :: natives_unix where
  "unix_file_of_4GiB = unix_platform 0x10000 0 3 0 4294967296"

subsection \<open>Facts shared by the proofs\<close>

lemmas win32_defs = Alloc_win32_def Free_win32_def MapFile_win32_def MapFile_win32_opened_def
  MapFile_win32_mapped_def UnmapFile_win32_def

lemmas unix_defs = Alloc_unix_def Free_unix_def MapFile_unix_def UnmapFile_unix_def

lemmas met_defs = path_converted_def tFilePath_def hFile_def hMapping_def pMapView_def
  fd_of_def fstat_of_def st_size_of_def data_of_def

lemmas platform_defs = cfg_plain_def win32_platform_def unix_platform_def NULL_def
  MAP_FAILED_def INVALID_HANDLE_VALUE_def

lemma reports_Nil [simp]: "reports P [] = 0"
  by (simp add: reports_def)

lemma reports_Cons [simp]: "reports P (e # es) = (if P e then 1 else 0) + reports P es"
  by (simp add: reports_def)

lemma reports_append [simp]: "reports P (xs @ ys) = reports P xs + reports P ys"
  by (simp add: reports_def)

lemma reports_TraceError [simp]: "reports is_report_win32 (TraceError cfg n) = 1"
  by (simp add: TraceError_def Let_def split: prod.splits)

lemma release_calls_TraceError [simp]: "filter is_release_call_win32 (TraceError cfg n) = []"
  by (simp add: TraceError_def Let_def split: prod.splits)

lemma ucast_DWORD_eq_0: "(ucast (w :: DWORD) = (0 :: Uint64)) = (w = 0)"
proof
  assume z: "ucast w = (0 :: Uint64)"
  have "ucast (ucast w :: Uint64) = w"
    by (rule ucast_up_ucast_id) (simp add: is_up)
  with z show "w = 0" by simp
next
  assume "w = 0"
  then show "ucast w = (0 :: Uint64)" by simp
qed

section \<open>The claims\<close>

subsection \<open>C1: an empty file maps to the empty sentinel\<close>

text \<open>
  C1. When the file opens and its size is determined to be zero, \<^verbatim>\<open>MapFile\<close> returns
  \<^verbatim>\<open>TRUE\<close>, sets the output struct to the empty sentinel (base null, size 0), makes no
  native memory-mapping call and reports no error. On Win32 the size is what the first
  \<^verbatim>\<open>GetFileSize\<close> query answers; on Unix it is the \<^verbatim>\<open>st_size\<close> of a successful
  \<^verbatim>\<open>fstat\<close>.
\<close>

theorem MapFile_empty_file:
  "(path_converted cfg nw filePath \<and> hFile cfg nw filePath \<noteq> INVALID_HANDLE_VALUE
      \<and> os_GetFileSize nw 0 (hFile cfg nw filePath) = 0
     \<longrightarrow> ret (MapFile_win32 cfg nw filePath fileMap)
       \<and> out (MapFile_win32 cfg nw filePath fileMap) = \<lparr>base = NULL, size' = 0\<rparr>
       \<and> filter is_mapping_call_win32 (trace (MapFile_win32 cfg nw filePath fileMap)) = []
       \<and> reports is_report_win32 (trace (MapFile_win32 cfg nw filePath fileMap)) = 0)
   \<and> (fd_of nu filePath \<noteq> - 1 \<and> fstat_of nu filePath \<noteq> - 1 \<and> st_size_of nu filePath = 0
     \<longrightarrow> ret (MapFile_unix cfg nu filePath fileMap)
       \<and> out (MapFile_unix cfg nu filePath fileMap) = \<lparr>base = NULL, size' = 0\<rparr>
       \<and> filter is_mapping_call_unix (trace (MapFile_unix cfg nu filePath fileMap)) = []
       \<and> reports is_report_unix (trace (MapFile_unix cfg nu filePath fileMap)) = 0)"
proof (intro conjI impI)
  assume w: "path_converted cfg nw filePath \<and> hFile cfg nw filePath \<noteq> INVALID_HANDLE_VALUE
      \<and> os_GetFileSize nw 0 (hFile cfg nw filePath) = 0"
  then have run: "MapFile_win32 cfg nw filePath fileMap =
      \<lparr>ret = True,
       trace = (if UNICODE cfg
                then [W_MultiByteToWideChar filePath (fst (os_MultiByteToWideChar nw filePath))]
                else [])
          @ [W_CreateFile (tFilePath cfg nw filePath) (hFile cfg nw filePath),
             W_GetFileSize (hFile cfg nw filePath) 0, W_CloseHandle (hFile cfg nw filePath)],
       out = \<lparr>base = NULL, size' = 0\<rparr>\<rparr>"
    by (cases "UNICODE cfg")
      (simp_all add: MapFile_win32_def MapFile_win32_opened_def met_defs Let_def split_beta)
  show "ret (MapFile_win32 cfg nw filePath fileMap)"
    and "out (MapFile_win32 cfg nw filePath fileMap) = \<lparr>base = NULL, size' = 0\<rparr>"
    and "filter is_mapping_call_win32 (trace (MapFile_win32 cfg nw filePath fileMap)) = []"
    and "reports is_report_win32 (trace (MapFile_win32 cfg nw filePath fileMap)) = 0"
    by (simp_all add: run)
next
  assume u: "fd_of nu filePath \<noteq> - 1 \<and> fstat_of nu filePath \<noteq> - 1 \<and> st_size_of nu filePath = 0"
  then have run: "MapFile_unix cfg nu filePath fileMap =
      \<lparr>ret = True,
       trace = [U_open filePath (fd_of nu filePath),
                U_fstat (fd_of nu filePath) (fstat_of nu filePath), U_close (fd_of nu filePath)],
       out = \<lparr>base = NULL, size' = 0\<rparr>\<rparr>"
    by (simp add: MapFile_unix_def met_defs Let_def split_beta)
  show "ret (MapFile_unix cfg nu filePath fileMap)"
    and "out (MapFile_unix cfg nu filePath fileMap) = \<lparr>base = NULL, size' = 0\<rparr>"
    and "filter is_mapping_call_unix (trace (MapFile_unix cfg nu filePath fileMap)) = []"
    and "reports is_report_unix (trace (MapFile_unix cfg nu filePath fileMap)) = 0"
    by (simp_all add: run)
qed

text \<open>
  C1, witness: the empty file of the demo on a Win32 platform built with \<^verbatim>\<open>UNICODE\<close>
  and on a Unix platform. The handles are closed and nothing is mapped.
\<close>

theorem MapFile_empty_file_witness:
  "ret (MapFile_win32 cfg_unicode (win32_platform 0 0 0x40 0 0 0 0 0) ''demo/empty_file'' \<lparr>base = 7, size' = 7\<rparr>)
   \<and> out (MapFile_win32 cfg_unicode (win32_platform 0 0 0x40 0 0 0 0 0) ''demo/empty_file'' \<lparr>base = 7, size' = 7\<rparr>)
       = \<lparr>base = NULL, size' = 0\<rparr>
   \<and> trace (MapFile_win32 cfg_unicode (win32_platform 0 0 0x40 0 0 0 0 0) ''demo/empty_file'' \<lparr>base = 7, size' = 7\<rparr>)
       = [W_MultiByteToWideChar ''demo/empty_file'' 16, W_CreateFile ''demo/empty_file'' 0x40,
          W_GetFileSize 0x40 0, W_CloseHandle 0x40]
   \<and> ret (MapFile_unix cfg_plain (unix_platform (- 1) (- 1) 3 0 0) ''demo/empty_file'' \<lparr>base = 7, size' = 7\<rparr>)
   \<and> out (MapFile_unix cfg_plain (unix_platform (- 1) (- 1) 3 0 0) ''demo/empty_file'' \<lparr>base = 7, size' = 7\<rparr>)
       = \<lparr>base = NULL, size' = 0\<rparr>
   \<and> trace (MapFile_unix cfg_plain (unix_platform (- 1) (- 1) 3 0 0) ''demo/empty_file'' \<lparr>base = 7, size' = 7\<rparr>)
       = [U_open ''demo/empty_file'' 3, U_fstat 3 0, U_close 3]"
  using MapFile_empty_file [where cfg = cfg_unicode and nw = "win32_platform 0 0 0x40 0 0 0 0 0"
      and filePath = "''demo/empty_file''" and fileMap = "\<lparr>base = 7, size' = 7\<rparr>"]
    MapFile_empty_file [where cfg = cfg_plain and nu = "unix_platform (- 1) (- 1) 3 0 0"
      and filePath = "''demo/empty_file''" and fileMap = "\<lparr>base = 7, size' = 7\<rparr>"]
  by (simp add: win32_defs unix_defs met_defs platform_defs cfg_unicode_def)

subsection \<open>C2: unmapping the empty sentinel and unmapping a mapped region\<close>

text \<open>
  C2 as stated fails for a region that is not the sentinel but has a null base or a zero
  size: the Unix backend tests the base only and the Win32 backend tests the size only, and
  each returns \<^verbatim>\<open>TRUE\<close> with no native call for such a region, also on a platform
  whose native release would fail.
\<close>

theorem UnmapFile_other_regions:
  "ret (UnmapFile_unix cfg_plain (unix_platform 0 (- 1) 3 0 0) \<lparr>base = NULL, size' = 4096\<rparr>)
   \<and> trace (UnmapFile_unix cfg_plain (unix_platform 0 (- 1) 3 0 0) \<lparr>base = NULL, size' = 4096\<rparr>) = []
   \<and> \<lparr>base = NULL, size' = 4096\<rparr> \<noteq> \<lparr>base = NULL, size' = 0\<rparr>
   \<and> ret (UnmapFile_win32 cfg_plain (win32_platform 0 0 0 0 0 0 0 0) \<lparr>base = 0x10000, size' = 0\<rparr>)
   \<and> trace (UnmapFile_win32 cfg_plain (win32_platform 0 0 0 0 0 0 0 0) \<lparr>base = 0x10000, size' = 0\<rparr>) = []
   \<and> \<lparr>base = 0x10000, size' = 0\<rparr> \<noteq> \<lparr>base = NULL, size' = 0\<rparr>"
  by (simp add: UnmapFile_unix_def UnmapFile_win32_def platform_defs)

text \<open>
  C2, amended. For the empty sentinel (base null and size 0) \<^verbatim>\<open>UnmapFile\<close> returns
  \<^verbatim>\<open>TRUE\<close> and makes no native call at all. For every region with a non-null base and
  a non-zero size it makes the native release call, once, with the region's base (and, on
  Unix, its size), and returns \<^verbatim>\<open>TRUE\<close> exactly when the call does not report failure:
  a non-zero \<^verbatim>\<open>UnmapViewOfFile\<close>, a \<^verbatim>\<open>munmap\<close> other than -1.
\<close>

theorem UnmapFile_sentinel_or_bound:
  "(base fileMap = NULL \<and> size' fileMap = 0
     \<longrightarrow> UnmapFile_win32 cfg nw fileMap = \<lparr>ret = True, trace = []\<rparr>
       \<and> UnmapFile_unix cfg nu fileMap = \<lparr>ret = True, trace = []\<rparr>)
   \<and> (base fileMap \<noteq> NULL \<and> size' fileMap \<noteq> 0
     \<longrightarrow> filter is_release_call_win32 (trace (UnmapFile_win32 cfg nw fileMap))
           = [W_UnmapViewOfFile (base fileMap) (os_UnmapViewOfFile nw (base fileMap))]
       \<and> ret (UnmapFile_win32 cfg nw fileMap) = (os_UnmapViewOfFile nw (base fileMap) \<noteq> 0)
       \<and> filter is_release_call_unix (trace (UnmapFile_unix cfg nu fileMap))
           = [U_munmap (base fileMap) (size' fileMap)
                (os_munmap nu (base fileMap) (size' fileMap))]
       \<and> ret (UnmapFile_unix cfg nu fileMap)
           = (os_munmap nu (base fileMap) (size' fileMap) \<noteq> - 1))"
  by (simp add: UnmapFile_win32_def UnmapFile_unix_def Let_def)

text \<open>
  C2, witness: the sentinel on both backends, then a mapped region whose release succeeds
  on Win32 and fails on Unix.
\<close>

theorem UnmapFile_sentinel_or_bound_witness:
  "UnmapFile_win32 cfg_plain (win32_platform 0 0 0 0 0 0 0 0) \<lparr>base = NULL, size' = 0\<rparr>
     = \<lparr>ret = True, trace = []\<rparr>
   \<and> UnmapFile_unix cfg_plain (unix_platform 0 (- 1) 3 0 0) \<lparr>base = NULL, size' = 0\<rparr>
     = \<lparr>ret = True, trace = []\<rparr>
   \<and> trace (UnmapFile_win32 cfg_plain (win32_platform 0 0 0 0 0 0 0 1) \<lparr>base = 0x10000, size' = 4096\<rparr>)
     = [W_UnmapViewOfFile 0x10000 1]
   \<and> ret (UnmapFile_win32 cfg_plain (win32_platform 0 0 0 0 0 0 0 1) \<lparr>base = 0x10000, size' = 4096\<rparr>)
   \<and> trace (UnmapFile_unix cfg_plain (unix_platform 0 (- 1) 3 0 0) \<lparr>base = 0x10000, size' = 4096\<rparr>)
     = [U_munmap 0x10000 4096 (- 1), U_TRACE_ERROR ''No such file or directory'']
   \<and> \<not> ret (UnmapFile_unix cfg_plain (unix_platform 0 (- 1) 3 0 0) \<lparr>base = 0x10000, size' = 4096\<rparr>)"
  using UnmapFile_sentinel_or_bound [where fileMap = "\<lparr>base = NULL, size' = 0\<rparr>"
      and cfg = cfg_plain and nw = "win32_platform 0 0 0 0 0 0 0 0"
      and nu = "unix_platform 0 (- 1) 3 0 0"]
    UnmapFile_sentinel_or_bound [where fileMap = "\<lparr>base = 0x10000, size' = 4096\<rparr>"
      and cfg = cfg_plain and nw = "win32_platform 0 0 0 0 0 0 0 1"
      and nu = "unix_platform 0 (- 1) 3 0 0"]
  by (simp add: UnmapFile_win32_def UnmapFile_unix_def platform_defs)

subsection \<open>C3: the two backends compared\<close>

text \<open>
  C3 as stated fails. For the region with base \<open>0x10000\<close> and size 0, on platforms whose
  native release fails, \<^verbatim>\<open>UnmapFile\<close> returns \<^verbatim>\<open>TRUE\<close> without a report on Win32 and
  \<^verbatim>\<open>FALSE\<close> with a report on Unix. When the size query fails and every other native call
  succeeds, \<^verbatim>\<open>MapFile\<close> returns \<^verbatim>\<open>TRUE\<close> on Win32 and \<^verbatim>\<open>FALSE\<close> on Unix.
\<close>

theorem backends_differ:
  "unmap_alike win32_refusing unix_refusing \<lparr>base = 0x10000, size' = 0\<rparr>
   \<and> observed is_report_win32
        (UnmapFile_win32 cfg_plain win32_refusing \<lparr>base = 0x10000, size' = 0\<rparr>) = (True, 0)
   \<and> observed is_report_unix
        (UnmapFile_unix cfg_plain unix_refusing \<lparr>base = 0x10000, size' = 0\<rparr>) = (False, 1)
   \<and> observed_out is_report_win32
        (MapFile_win32 cfg_plain win32_size_query_fails ''f'' \<lparr>base = 7, size' = 7\<rparr>)
       = (True, 0, \<lparr>base = 0x10000, size' = 0xFFFFFFFF\<rparr>)
   \<and> observed_out is_report_unix
        (MapFile_unix cfg_plain unix_size_query_fails ''f'' \<lparr>base = 7, size' = 7\<rparr>)
       = (False, 1, \<lparr>base = 7, size' = 7\<rparr>)"
  by (simp add: observed_def observed_out_def unmap_alike_def win32_defs unix_defs TraceError_def
      platform_defs win32_refusing_def unix_refusing_def win32_size_query_fails_def
      unix_size_query_fails_def INVALID_FILE_SIZE_def)

text \<open>
  The operations one by one; for \<^verbatim>\<open>MapFile\<close>, what a caller observes is first read off
  the native results on each backend.
\<close>

lemma agree_Alloc:
  "alloc_alike cfg nw nu sz \<Longrightarrow>
   observed_out is_report_win32 (Alloc_win32 cfg nw sz bytes)
     = observed_out is_report_unix (Alloc_unix cfg nu sz bytes)"
  by (simp add: alloc_alike_def observed_out_def Alloc_win32_def Alloc_unix_def base_win32_def
      base_unix_def Let_def split: if_splits)

lemma agree_Free:
  "free_alike nw nu region \<Longrightarrow>
   observed is_report_win32 (Free_win32 cfg nw region)
     = observed is_report_unix (Free_unix cfg nu region)"
  by (simp add: free_alike_def observed_def Free_win32_def Free_unix_def Let_def)

lemma agree_UnmapFile:
  "(size' region = 0) = (base region = NULL) \<Longrightarrow> unmap_alike nw nu region \<Longrightarrow>
   observed is_report_win32 (UnmapFile_win32 cfg nw region)
     = observed is_report_unix (UnmapFile_unix cfg nu region)"
  by (simp add: unmap_alike_def observed_def UnmapFile_win32_def UnmapFile_unix_def Let_def)

lemma observed_MapFile_unix:
  "observed_out is_report_unix (MapFile_unix cfg n filePath bytes) =
     (if fd_of n filePath = - 1 \<or> fstat_of n filePath = - 1 then (False, 1, bytes)
      else if word_of_int (st_size_of n filePath) = (0 :: Uint64)
      then (True, 0, \<lparr>base = NULL, size' = 0\<rparr>)
      else if data_of cfg n filePath = MAP_FAILED then (False, 1, bytes)
      else (True, 0, \<lparr>base = data_of cfg n filePath,
                       size' = word_of_int (st_size_of n filePath)\<rparr>))"
  by (simp add: observed_out_def MapFile_unix_def met_defs Let_def split_beta)

lemma observed_MapFile_win32:
  "observed_out is_report_win32 (MapFile_win32 cfg n filePath bytes) =
     (if \<not> path_converted cfg n filePath \<or> hFile cfg n filePath = INVALID_HANDLE_VALUE
      then (False, 1, bytes)
      else if os_GetFileSize n 0 (hFile cfg n filePath) = 0
      then (True, 0, \<lparr>base = NULL, size' = 0\<rparr>)
      else if hMapping cfg n filePath = NULL \<or> pMapView cfg n filePath = NULL
      then (False, 1, bytes)
      else (True, 0, \<lparr>base = pMapView cfg n filePath,
                       size' = ucast (os_GetFileSize n 1 (hFile cfg n filePath))\<rparr>))"
  by (cases "UNICODE cfg")
    (simp_all add: observed_out_def win32_defs met_defs Let_def split_beta)

lemma agree_MapFile:
  assumes "file_alike cfg nw nu filePath"
  shows "observed_out is_report_win32 (MapFile_win32 cfg nw filePath bytes)
     = observed_out is_report_unix (MapFile_unix cfg nu filePath bytes)"
proof (cases "fd_of nu filePath = - 1")
  case True
  with assms show ?thesis
    by (auto simp add: file_alike_def observed_MapFile_unix observed_MapFile_win32)
next
  case False
  with assms have opened: "path_converted cfg nw filePath"
      "hFile cfg nw filePath \<noteq> INVALID_HANDLE_VALUE"
    and sized: "size_alike cfg nw nu filePath"
    and viewed: "os_GetFileSize nw 0 (hFile cfg nw filePath) \<noteq> 0
      \<Longrightarrow> view_alike cfg nw nu filePath"
    by (simp_all add: file_alike_def split: if_splits)
  show ?thesis
  proof (cases "os_GetFileSize nw 0 (hFile cfg nw filePath) = 0")
    case True
    with False opened sized show ?thesis
      by (simp add: size_alike_def observed_MapFile_unix observed_MapFile_win32)
  next
    case nonzero: False
    from viewed [OF nonzero] False opened sized nonzero show ?thesis
      by (auto simp add: size_alike_def view_alike_def observed_MapFile_unix
          observed_MapFile_win32 ucast_DWORD_eq_0 split: if_splits)
  qed
qed

text \<open>
  C3, amended. On platforms that answer alike, each of the four operations gives the same
  result, the same number of reports and the same output struct on both backends, where
  \<^item> for \<^verbatim>\<open>MapFile\<close>, answering alike includes that the size query succeeds and that the
    size is one that both \<^verbatim>\<open>GetFileSize\<close> queries answer (so it is below \<open>2 ^ 32\<close>), and
  \<^item> for \<^verbatim>\<open>UnmapFile\<close>, the region has size 0 exactly when its base is null.
\<close>

theorem backends_agree:
  "(alloc_alike cfg nw nu sz
     \<longrightarrow> observed_out is_report_win32 (Alloc_win32 cfg nw sz bytes)
         = observed_out is_report_unix (Alloc_unix cfg nu sz bytes))
   \<and> (free_alike nw nu region
     \<longrightarrow> observed is_report_win32 (Free_win32 cfg nw region)
         = observed is_report_unix (Free_unix cfg nu region))
   \<and> (file_alike cfg nw nu filePath
     \<longrightarrow> observed_out is_report_win32 (MapFile_win32 cfg nw filePath bytes)
         = observed_out is_report_unix (MapFile_unix cfg nu filePath bytes))
   \<and> ((size' region = 0) = (base region = NULL) \<and> unmap_alike nw nu region
     \<longrightarrow> observed is_report_win32 (UnmapFile_win32 cfg nw region)
         = observed is_report_unix (UnmapFile_unix cfg nu region))"
  using agree_Alloc agree_Free agree_MapFile agree_UnmapFile by blast

text \<open>
  C3, witness: the platforms on which every native call succeeds answer alike and give the
  same observations for all four operations; so do, for \<^verbatim>\<open>MapFile\<close>, the platforms on
  which every native call fails.
\<close>

theorem backends_agree_witness:
  "alloc_alike cfg_plain win32_granting unix_granting 4096
   \<and> observed_out is_report_win32 (Alloc_win32 cfg_plain win32_granting 4096 \<lparr>base = 7, size' = 7\<rparr>)
       = (True, 0, \<lparr>base = 0x10000, size' = 4096\<rparr>)
   \<and> observed_out is_report_unix (Alloc_unix cfg_plain unix_granting 4096 \<lparr>base = 7, size' = 7\<rparr>)
       = (True, 0, \<lparr>base = 0x10000, size' = 4096\<rparr>)
   \<and> free_alike win32_granting unix_granting \<lparr>base = 0x10000, size' = 4096\<rparr>
   \<and> observed is_report_win32 (Free_win32 cfg_plain win32_granting \<lparr>base = 0x10000, size' = 4096\<rparr>)
       = (True, 0)
   \<and> observed is_report_unix (Free_unix cfg_plain unix_granting \<lparr>base = 0x10000, size' = 4096\<rparr>)
       = (True, 0)
   \<and> file_alike cfg_plain win32_granting unix_granting ''demo/lorem_ipsum''
   \<and> observed_out is_report_win32
        (MapFile_win32 cfg_plain win32_granting ''demo/lorem_ipsum'' \<lparr>base = 7, size' = 7\<rparr>)
       = (True, 0, \<lparr>base = 0x10000, size' = 4096\<rparr>)
   \<and> observed_out is_report_unix
        (MapFile_unix cfg_plain unix_granting ''demo/lorem_ipsum'' \<lparr>base = 7, size' = 7\<rparr>)
       = (True, 0, \<lparr>base = 0x10000, size' = 4096\<rparr>)
   \<and> unmap_alike win32_granting unix_granting \<lparr>base = 0x10000, size' = 4096\<rparr>
   \<and> observed is_report_win32
        (UnmapFile_win32 cfg_plain win32_granting \<lparr>base = 0x10000, size' = 4096\<rparr>) = (True, 0)
   \<and> observed is_report_unix
        (UnmapFile_unix cfg_plain unix_granting \<lparr>base = 0x10000, size' = 4096\<rparr>) = (True, 0)
   \<and> file_alike cfg_plain win32_refusing unix_refusing ''missing''
   \<and> observed_out is_report_win32
        (MapFile_win32 cfg_plain win32_refusing ''missing'' \<lparr>base = 7, size' = 7\<rparr>)
       = (False, 1, \<lparr>base = 7, size' = 7\<rparr>)
   \<and> observed_out is_report_unix
        (MapFile_unix cfg_plain unix_refusing ''missing'' \<lparr>base = 7, size' = 7\<rparr>)
       = (False, 1, \<lparr>base = 7, size' = 7\<rparr>)"
  using backends_agree [where cfg = cfg_plain and nw = win32_granting and nu = unix_granting
      and sz = 4096 and bytes = "\<lparr>base = 7, size' = 7\<rparr>"
      and region = "\<lparr>base = 0x10000, size' = 4096\<rparr>" and filePath = "''demo/lorem_ipsum''"]
    backends_agree [where cfg = cfg_plain and nw = win32_refusing and nu = unix_refusing
      and bytes = "\<lparr>base = 7, size' = 7\<rparr>" and filePath = "''missing''"]
  by (simp add: observed_def observed_out_def alloc_alike_def free_alike_def unmap_alike_def
      view_alike_def size_alike_def file_alike_def base_win32_def base_unix_def met_defs
      win32_defs unix_defs TraceError_def platform_defs win32_granting_def unix_granting_def
      win32_refusing_def unix_refusing_def)

subsection \<open>C4: a failing call leaves nothing behind\<close>

lemma track_TraceError [simp]: "foldl track_win32 rs (TraceError cfg n) = rs"
  by (simp add: TraceError_def Let_def split: prod.splits)

lemma clean_Alloc_win32: "clean_failure_win32 bytes (Alloc_win32 cfg n sz bytes)"
  by (simp add: clean_failure_win32_def Alloc_win32_def held_win32_def Let_def)

lemma clean_MapFile_win32_mapped:
  "foldl track_win32 [] tr0 = [Handle h] \<Longrightarrow>
   \<not> ret (MapFile_win32_mapped cfg n h bytes tr0) \<Longrightarrow>
   out (MapFile_win32_mapped cfg n h bytes tr0) = bytes
   \<and> held_win32 (trace (MapFile_win32_mapped cfg n h bytes tr0)) = []"
  by (simp add: MapFile_win32_mapped_def held_win32_def Let_def split: if_splits)

lemma clean_MapFile_win32_opened:
  "foldl track_win32 [] tr0 = [] \<Longrightarrow>
   \<not> ret (MapFile_win32_opened cfg n p bytes tr0) \<Longrightarrow>
   out (MapFile_win32_opened cfg n p bytes tr0) = bytes
   \<and> held_win32 (trace (MapFile_win32_opened cfg n p bytes tr0)) = []"
  using clean_MapFile_win32_mapped [of "tr0 @ [W_CreateFile p (os_CreateFile n p),
      W_GetFileSize (os_CreateFile n p) (os_GetFileSize n 0 (os_CreateFile n p))]"
      "os_CreateFile n p" cfg n bytes]
  by (simp add: MapFile_win32_opened_def held_win32_def Let_def split: if_splits)

lemma clean_MapFile_win32: "clean_failure_win32 bytes (MapFile_win32 cfg n p bytes)"
  using clean_MapFile_win32_opened [of "[]" cfg n p bytes]
    clean_MapFile_win32_opened [of "[W_MultiByteToWideChar p (fst (os_MultiByteToWideChar n p))]"
      cfg n "snd (os_MultiByteToWideChar n p)" bytes]
  by (simp add: clean_failure_win32_def MapFile_win32_def held_win32_def Let_def split_beta
      split: if_splits)

lemma clean_Alloc_unix: "clean_failure_unix bytes (Alloc_unix cfg n sz bytes)"
  by (simp add: clean_failure_unix_def Alloc_unix_def held_unix_def Let_def)

lemma clean_MapFile_unix: "clean_failure_unix bytes (MapFile_unix cfg n p bytes)"
  by (simp add: clean_failure_unix_def MapFile_unix_def held_unix_def Let_def split_beta)

text \<open>
  C4. Every call of \<^verbatim>\<open>Alloc\<close> or \<^verbatim>\<open>MapFile\<close> that returns \<^verbatim>\<open>FALSE\<close> leaves the
  caller's output struct as it was and leaves no resource open: every file handle, mapping
  object or file descriptor that the call opened has been closed in the trace.
\<close>

theorem failing_call_is_clean:
  "clean_failure_win32 bytes (Alloc_win32 cfg nw sz bytes)
   \<and> clean_failure_win32 bytes (MapFile_win32 cfg nw filePath bytes)
   \<and> clean_failure_unix bytes (Alloc_unix cfg nu sz bytes)
   \<and> clean_failure_unix bytes (MapFile_unix cfg nu filePath bytes)"
  by (simp add: clean_Alloc_win32 clean_MapFile_win32 clean_Alloc_unix clean_MapFile_unix)

text \<open>
  C4, witness: large pages refused to \<^verbatim>\<open>Alloc\<close>, and \<^verbatim>\<open>MapFile\<close> failing at its last
  native call, where the Win32 backend holds two handles and the Unix backend a descriptor.
\<close>

theorem failing_call_is_clean_witness:
  "\<not> ret (Alloc_win32 cfg_large win32_no_large_pages 4096 \<lparr>base = 7, size' = 7\<rparr>)
   \<and> out (Alloc_win32 cfg_large win32_no_large_pages 4096 \<lparr>base = 7, size' = 7\<rparr>) = \<lparr>base = 7, size' = 7\<rparr>
   \<and> \<not> ret (MapFile_win32 cfg_plain (win32_platform 0 0 0x40 4096 4096 0x44 0 0) ''demo/lorem_ipsum'' \<lparr>base = 7, size' = 7\<rparr>)
   \<and> out (MapFile_win32 cfg_plain (win32_platform 0 0 0x40 4096 4096 0x44 0 0) ''demo/lorem_ipsum'' \<lparr>base = 7, size' = 7\<rparr>)
       = \<lparr>base = 7, size' = 7\<rparr>
   \<and> trace (MapFile_win32 cfg_plain (win32_platform 0 0 0x40 4096 4096 0x44 0 0) ''demo/lorem_ipsum'' \<lparr>base = 7, size' = 7\<rparr>)
       = [W_CreateFile ''demo/lorem_ipsum'' 0x40, W_GetFileSize 0x40 4096,
          W_CreateFileMapping 0x40 [PAGE_READONLY] 0x44, W_MapViewOfFile 0x44 0,
          W_FormatMessage 2 42, W_TRACE_ERROR ''The system cannot find the file specified.'',
          W_CloseHandle 0x44, W_CloseHandle 0x40]
   \<and> held_win32 (trace (MapFile_win32 cfg_plain (win32_platform 0 0 0x40 4096 4096 0x44 0 0) ''demo/lorem_ipsum'' \<lparr>base = 7, size' = 7\<rparr>)) = []
   \<and> \<not> ret (Alloc_unix cfg_large unix_no_large_pages 4096 \<lparr>base = 7, size' = 7\<rparr>)
   \<and> out (Alloc_unix cfg_large unix_no_large_pages 4096 \<lparr>base = 7, size' = 7\<rparr>) = \<lparr>base = 7, size' = 7\<rparr>
   \<and> \<not> ret (MapFile_unix cfg_plain (unix_platform (- 1) 0 3 0 4096) ''demo/lorem_ipsum'' \<lparr>base = 7, size' = 7\<rparr>)
   \<and> out (MapFile_unix cfg_plain (unix_platform (- 1) 0 3 0 4096) ''demo/lorem_ipsum'' \<lparr>base = 7, size' = 7\<rparr>)
       = \<lparr>base = 7, size' = 7\<rparr>
   \<and> trace (MapFile_unix cfg_plain (unix_platform (- 1) 0 3 0 4096) ''demo/lorem_ipsum'' \<lparr>base = 7, size' = 7\<rparr>)
       = [U_open ''demo/lorem_ipsum'' 3, U_fstat 3 0, U_mmap 4096 [PROT_READ] [MAP_PRIVATE] 3 (- 1),
          U_TRACE_ERROR ''No such file or directory'', U_close 3]
   \<and> held_unix (trace (MapFile_unix cfg_plain (unix_platform (- 1) 0 3 0 4096) ''demo/lorem_ipsum'' \<lparr>base = 7, size' = 7\<rparr>)) = []"
  using failing_call_is_clean [where bytes = "\<lparr>base = 7, size' = 7\<rparr>" and cfg = cfg_large
      and nw = win32_no_large_pages and nu = unix_no_large_pages and sz = 4096]
    failing_call_is_clean [where bytes = "\<lparr>base = 7, size' = 7\<rparr>" and cfg = cfg_plain
      and nw = "win32_platform 0 0 0x40 4096 4096 0x44 0 0"
      and nu = "unix_platform (- 1) 0 3 0 4096" and filePath = "''demo/lorem_ipsum''"]
  by (simp add: clean_failure_win32_def clean_failure_unix_def win32_defs unix_defs TraceError_def
      held_win32_def held_unix_def platform_defs cfg_large_def win32_no_large_pages_def
      unix_no_large_pages_def)

subsection \<open>C5: the size of a mapped file\<close>

text \<open>
  What the backends store as the size of a mapped file. On Unix it is \<^verbatim>\<open>st_size\<close>, all
  64 bits of it. On Win32 it is the answer of the second \<^verbatim>\<open>GetFileSize\<close> query widened
  from 32 bits, so it is always below \<open>2 ^ 32\<close>.
\<close>

lemma MapFile_unix_size:
  "ret (MapFile_unix cfg n filePath fileMap) \<Longrightarrow>
   0 \<le> st_size_of n filePath \<Longrightarrow> st_size_of n filePath < 2 ^ 63 \<Longrightarrow>
   uint (size' (out (MapFile_unix cfg n filePath fileMap))) = st_size_of n filePath"
proof -
  assume r: "ret (MapFile_unix cfg n filePath fileMap)"
    and lo: "0 \<le> st_size_of n filePath" and hi: "st_size_of n filePath < 2 ^ 63"
  have "size' (out (MapFile_unix cfg n filePath fileMap)) = word_of_int (st_size_of n filePath)"
    using r by (simp add: MapFile_unix_def met_defs Let_def split_beta split: if_splits)
  moreover have "uint (word_of_int (st_size_of n filePath) :: Uint64) = st_size_of n filePath"
    using lo hi by (simp add: uint_word_of_int take_bit_int_eq_self)
  ultimately show ?thesis by simp
qed

lemma ucast_DWORD_small: "unat (ucast (w :: DWORD) :: Uint64) < 4294967296"
proof -
  have small: "unat w < 4294967296"
    using unsigned_less [of w, where ?'a = nat] by simp
  then have "unat w < 2 ^ 64"
    by simp
  then have "take_bit 64 (unat w) = unat w"
    by (rule take_bit_nat_eq_self)
  then have "unat (ucast w :: Uint64) = unat w"
    by (simp add: unsigned_ucast_eq)
  with small show ?thesis by simp
qed

lemma MapFile_win32_size_bound:
  "ret (MapFile_win32 cfg n filePath fileMap) \<Longrightarrow>
   unat (size' (out (MapFile_win32 cfg n filePath fileMap))) < 4294967296"
  by (simp add: win32_defs Let_def split_beta ucast_DWORD_small NULL_def split: if_splits)

text \<open>
  C5 fails on the Win32 backend for a file of \<open>2 ^ 32\<close> bytes or more. The file of
  \<open>4294967297\<close> bytes is mapped successfully and the region's size field is 1.
\<close>

theorem MapFile_win32_large_file:
  "ret (MapFile_win32 cfg_plain win32_large_file ''big'' \<lparr>base = 7, size' = 7\<rparr>)
   \<and> out (MapFile_win32 cfg_plain win32_large_file ''big'' \<lparr>base = 7, size' = 7\<rparr>)
       = \<lparr>base = 0x10000, size' = 1\<rparr>
   \<and> os_GetFileSize win32_large_file 0 0x40 = word_of_nat 4294967297"
  by (simp add: win32_defs platform_defs win32_large_file_def)

subsection \<open>C6: when \<^verbatim>\<open>MapFile\<close> fails\<close>

text \<open>
  The Unix backend fails in exactly the situations of the claim: the file does not open,
  \<^verbatim>\<open>fstat\<close> fails, or the file is not empty and \<^verbatim>\<open>mmap\<close> fails. The Win32 backend
  fails exactly when the path is not converted, the file does not open, or the first size
  query is not zero and the mapping object or the view is refused: the size query is never
  a reason.
\<close>

lemma MapFile_unix_fails_iff:
  "(\<not> ret (MapFile_unix cfg n filePath fileMap)) =
     (fd_of n filePath = - 1 \<or> fstat_of n filePath = - 1
      \<or> (word_of_int (st_size_of n filePath) \<noteq> (0 :: Uint64)
          \<and> data_of cfg n filePath = MAP_FAILED))"
  by (simp add: MapFile_unix_def met_defs Let_def split_beta)

lemma MapFile_win32_fails_iff:
  "(\<not> ret (MapFile_win32 cfg n filePath fileMap)) =
     (\<not> path_converted cfg n filePath \<or> hFile cfg n filePath = INVALID_HANDLE_VALUE
      \<or> (os_GetFileSize n 0 (hFile cfg n filePath) \<noteq> 0
          \<and> (hMapping cfg n filePath = NULL \<or> pMapView cfg n filePath = NULL)))"
  by (cases "UNICODE cfg") (simp_all add: win32_defs met_defs Let_def split_beta)

text \<open>
  C6 fails on the Win32 backend: when the size query fails and the other native calls
  succeed, \<^verbatim>\<open>MapFile\<close> returns \<^verbatim>\<open>TRUE\<close> with the size \<open>0xFFFFFFFF\<close> and no report. The
  Unix backend returns \<^verbatim>\<open>FALSE\<close> when its size query fails.
\<close>

theorem MapFile_win32_unchecked_size_query:
  "ret (MapFile_win32 cfg_plain win32_size_query_fails ''f'' \<lparr>base = 7, size' = 7\<rparr>)
   \<and> out (MapFile_win32 cfg_plain win32_size_query_fails ''f'' \<lparr>base = 7, size' = 7\<rparr>)
       = \<lparr>base = 0x10000, size' = 0xFFFFFFFF\<rparr>
   \<and> trace (MapFile_win32 cfg_plain win32_size_query_fails ''f'' \<lparr>base = 7, size' = 7\<rparr>)
       = [W_CreateFile ''f'' 0x40, W_GetFileSize 0x40 INVALID_FILE_SIZE,
          W_CreateFileMapping 0x40 [PAGE_READONLY] 0x44, W_MapViewOfFile 0x44 0x10000,
          W_GetFileSize 0x40 INVALID_FILE_SIZE, W_CloseHandle 0x44, W_CloseHandle 0x40]
   \<and> \<not> ret (MapFile_unix cfg_plain unix_size_query_fails ''f'' \<lparr>base = 7, size' = 7\<rparr>)"
  by (simp add: win32_defs unix_defs platform_defs win32_size_query_fails_def
      unix_size_query_fails_def INVALID_FILE_SIZE_def)

subsection \<open>C7: one report for a failure, none for a success, no retry\<close>

lemma aftermath_TraceError [simp]: "list_all aftermath_win32 (TraceError cfg n)"
  by (simp add: TraceError_def Let_def split: prod.splits)


lemma no_retry_TraceError [simp]: "no_retry failed_win32 aftermath_win32 (TraceError cfg n)"
  by (simp add: TraceError_def Let_def split: prod.splits)

lemma failed_TraceError [simp]: "\<not> list_ex failed_win32 (TraceError cfg n)"
  by (simp add: TraceError_def Let_def split: prod.splits)













subsection \<open>C8: large pages are not replaced by standard pages\<close>

lemma page_requests_TraceError [simp]: "filter is_page_request_win32 (TraceError cfg n) = []"
  by (simp add: TraceError_def Let_def split: prod.splits)

lemma no_fallback_Alloc_win32: "LARGE_PAGES cfg \<Longrightarrow> no_fallback_win32 (Alloc_win32 cfg n sz bytes)"
  by (simp add: no_fallback_win32_def Alloc_win32_def Let_def)

lemma no_fallback_MapFile_win32_mapped:
  "LARGE_PAGES cfg \<Longrightarrow> filter is_page_request_win32 tr0 = [] \<Longrightarrow>
   no_fallback_win32 (MapFile_win32_mapped cfg n h bytes tr0)"
  by (simp add: no_fallback_win32_def MapFile_win32_mapped_def Let_def)

lemma no_fallback_MapFile_win32_opened:
  "LARGE_PAGES cfg \<Longrightarrow> filter is_page_request_win32 tr0 = [] \<Longrightarrow>
   no_fallback_win32 (MapFile_win32_opened cfg n p bytes tr0)"
  using no_fallback_MapFile_win32_mapped [of cfg "tr0 @ [W_CreateFile p (os_CreateFile n p),
      W_GetFileSize (os_CreateFile n p) (os_GetFileSize n 0 (os_CreateFile n p))]"
      n "os_CreateFile n p" bytes]
  by (simp add: no_fallback_win32_def MapFile_win32_opened_def Let_def)

lemma no_fallback_MapFile_win32:
  "LARGE_PAGES cfg \<Longrightarrow> no_fallback_win32 (MapFile_win32 cfg n p bytes)"
  using no_fallback_MapFile_win32_opened [of cfg "[]" n p bytes]
    no_fallback_MapFile_win32_opened [of cfg
      "[W_MultiByteToWideChar p (fst (os_MultiByteToWideChar n p))]"
      n "snd (os_MultiByteToWideChar n p)" bytes]
  by (simp add: no_fallback_win32_def MapFile_win32_def Let_def split_beta)

lemma no_fallback_Alloc_unix: "LARGE_PAGES cfg \<Longrightarrow> no_fallback_unix (Alloc_unix cfg n sz bytes)"
  by (simp add: no_fallback_unix_def Alloc_unix_def Let_def)

lemma no_fallback_MapFile_unix:
  "LARGE_PAGES cfg \<Longrightarrow> no_fallback_unix (MapFile_unix cfg n p bytes)"
  by (simp add: no_fallback_unix_def MapFile_unix_def Let_def split_beta)

text \<open>
  C8. Compiled with \<^verbatim>\<open>LARGE_PAGES\<close>, \<^verbatim>\<open>Alloc\<close> and \<^verbatim>\<open>MapFile\<close> make at most one
  native call that takes the page-size flag (\<^verbatim>\<open>VirtualAlloc\<close>, \<^verbatim>\<open>CreateFileMapping\<close>,
  \<^verbatim>\<open>mmap\<close>), that call carries the large-page flag, and when it fails the operation
  returns \<^verbatim>\<open>FALSE\<close>: there is no second attempt with standard pages.
\<close>

theorem large_pages_no_fallback:
  assumes "LARGE_PAGES cfg"
  shows "no_fallback_win32 (Alloc_win32 cfg nw sz bytes)
    \<and> no_fallback_win32 (MapFile_win32 cfg nw filePath bytes)
    \<and> no_fallback_unix (Alloc_unix cfg nu sz bytes)
    \<and> no_fallback_unix (MapFile_unix cfg nu filePath bytes)"
  using assms
  by (simp add: no_fallback_Alloc_win32 no_fallback_MapFile_win32 no_fallback_Alloc_unix
      no_fallback_MapFile_unix)

text \<open>
  C8, witness: platforms that refuse large pages and would grant standard pages. With
  \<^verbatim>\<open>LARGE_PAGES\<close> both operations fail after a single request; without it they succeed.
\<close>

theorem large_pages_no_fallback_witness:
  "LARGE_PAGES cfg_large
   \<and> trace (Alloc_win32 cfg_large win32_no_large_pages 4096 \<lparr>base = 7, size' = 7\<rparr>)
       = [W_VirtualAlloc 4096 [MEM_RESERVE, MEM_COMMIT, MEM_LARGE_PAGES] 0, W_FormatMessage 2 42,
          W_TRACE_ERROR ''The system cannot find the file specified.'']
   \<and> \<not> ret (Alloc_win32 cfg_large win32_no_large_pages 4096 \<lparr>base = 7, size' = 7\<rparr>)
   \<and> ret (Alloc_win32 cfg_plain win32_no_large_pages 4096 \<lparr>base = 7, size' = 7\<rparr>)
   \<and> trace (MapFile_win32 cfg_large win32_no_large_pages ''demo/lorem_ipsum'' \<lparr>base = 7, size' = 7\<rparr>)
       = [W_CreateFile ''demo/lorem_ipsum'' 0x40, W_GetFileSize 0x40 4096,
          W_CreateFileMapping 0x40 [PAGE_READONLY, SEC_LARGE_PAGES] 0, W_FormatMessage 2 42,
          W_TRACE_ERROR ''The system cannot find the file specified.'', W_CloseHandle 0x40]
   \<and> \<not> ret (MapFile_win32 cfg_large win32_no_large_pages ''demo/lorem_ipsum'' \<lparr>base = 7, size' = 7\<rparr>)
   \<and> ret (MapFile_win32 cfg_plain win32_no_large_pages ''demo/lorem_ipsum'' \<lparr>base = 7, size' = 7\<rparr>)
   \<and> trace (Alloc_unix cfg_large unix_no_large_pages 4096 \<lparr>base = 7, size' = 7\<rparr>)
       = [U_mmap 4096 [PROT_READ, PROT_WRITE] [MAP_PRIVATE, MAP_ANONYMOUS, MAP_HUGETLB] (- 1) (- 1),
          U_TRACE_ERROR ''No such file or directory'']
   \<and> \<not> ret (Alloc_unix cfg_large unix_no_large_pages 4096 \<lparr>base = 7, size' = 7\<rparr>)
   \<and> ret (Alloc_unix cfg_plain unix_no_large_pages 4096 \<lparr>base = 7, size' = 7\<rparr>)
   \<and> trace (MapFile_unix cfg_large unix_no_large_pages ''demo/lorem_ipsum'' \<lparr>base = 7, size' = 7\<rparr>)
       = [U_open ''demo/lorem_ipsum'' 3, U_fstat 3 0,
          U_mmap 4096 [PROT_READ] [MAP_PRIVATE, MAP_HUGETLB] 3 (- 1),
          U_TRACE_ERROR ''No such file or directory'', U_close 3]
   \<and> \<not> ret (MapFile_unix cfg_large unix_no_large_pages ''demo/lorem_ipsum'' \<lparr>base = 7, size' = 7\<rparr>)
   \<and> ret (MapFile_unix cfg_plain unix_no_large_pages ''demo/lorem_ipsum'' \<lparr>base = 7, size' = 7\<rparr>)"
proof -
  have large: "LARGE_PAGES cfg_large"
    by (simp add: cfg_large_def)
  show ?thesis
    using large large_pages_no_fallback [OF large, where nw = win32_no_large_pages
        and nu = unix_no_large_pages and sz = 4096 and filePath = "''demo/lorem_ipsum''"
        and bytes = "\<lparr>base = 7, size' = 7\<rparr>"]
    by (simp add: no_fallback_win32_def no_fallback_unix_def win32_defs unix_defs TraceError_def
        platform_defs cfg_large_def win32_no_large_pages_def unix_no_large_pages_def)
qed

subsection \<open>C9: the invariant of a region that a call produced\<close>

text \<open>
  What the source guarantees of the region of a successful call. \<^verbatim>\<open>Alloc\<close> stores the
  requested size and the address the platform granted, which on Win32 is not null.
  \<^verbatim>\<open>MapFile\<close> on Win32 stores a null base exactly when the first \<^verbatim>\<open>GetFileSize\<close>
  query answers 0, and then the size 0; on Unix it stores the size 0 exactly when
  \<^verbatim>\<open>st_size\<close> is 0 as a \<^verbatim>\<open>size_t\<close>, and then the null base.
\<close>

lemma Alloc_win32_region:
  "ret (Alloc_win32 cfg n sz bytes) \<Longrightarrow>
   base (out (Alloc_win32 cfg n sz bytes)) \<noteq> NULL
   \<and> size' (out (Alloc_win32 cfg n sz bytes)) = sz"
  by (simp add: Alloc_win32_def Let_def split: if_splits)

lemma Alloc_unix_region:
  "ret (Alloc_unix cfg n sz bytes) \<Longrightarrow>
   base (out (Alloc_unix cfg n sz bytes)) \<noteq> MAP_FAILED
   \<and> size' (out (Alloc_unix cfg n sz bytes)) = sz"
  by (simp add: Alloc_unix_def Let_def split: if_splits)

lemma MapFile_win32_null_base_iff:
  assumes "ret (MapFile_win32 cfg n filePath fileMap)"
  shows "(base (out (MapFile_win32 cfg n filePath fileMap)) = NULL)
      = (os_GetFileSize n 0 (hFile cfg n filePath) = 0)"
    and "os_GetFileSize n 0 (hFile cfg n filePath) = 0 \<Longrightarrow>
      out (MapFile_win32 cfg n filePath fileMap) = \<lparr>base = NULL, size' = 0\<rparr>"
  using assms
  by (cases "UNICODE cfg"; simp add: win32_defs met_defs Let_def split_beta split: if_splits)+

lemma MapFile_unix_zero_size_iff:
  assumes "ret (MapFile_unix cfg n filePath fileMap)"
  shows "(size' (out (MapFile_unix cfg n filePath fileMap)) = 0)
      = (word_of_int (st_size_of n filePath) = (0 :: Uint64))"
    and "word_of_int (st_size_of n filePath) = (0 :: Uint64) \<Longrightarrow>
      out (MapFile_unix cfg n filePath fileMap) = \<lparr>base = NULL, size' = 0\<rparr>"
  using assms
  by (simp_all add: MapFile_unix_def met_defs Let_def split_beta split: if_splits)

text \<open>
  C9 fails on the Win32 backend: the empty sentinel also arises from a file that is not
  empty. For the file of \<open>4294967296\<close> bytes the size query answers the low-order 32 bits
  of the length, 0, and \<^verbatim>\<open>MapFile\<close> takes the branch for an empty file: it returns
  \<^verbatim>\<open>TRUE\<close> with the null base and the size 0, having mapped nothing. The Unix backend
  maps the same file and stores its length.
\<close>

theorem MapFile_win32_sentinel_of_4GiB_file:
  "os_GetFileSize win32_file_of_4GiB 0 0x40 = word_of_nat 4294967296
   \<and> ret (MapFile_win32 cfg_plain win32_file_of_4GiB ''big'' \<lparr>base = 7, size' = 7\<rparr>)
   \<and> out (MapFile_win32 cfg_plain win32_file_of_4GiB ''big'' \<lparr>base = 7, size' = 7\<rparr>)
       = \<lparr>base = NULL, size' = 0\<rparr>
   \<and> trace (MapFile_win32 cfg_plain win32_file_of_4GiB ''big'' \<lparr>base = 7, size' = 7\<rparr>)
       = [W_CreateFile ''big'' 0x40, W_GetFileSize 0x40 0, W_CloseHandle 0x40]
   \<and> ret (MapFile_unix cfg_plain unix_file_of_4GiB ''big'' \<lparr>base = 7, size' = 7\<rparr>)
   \<and> out (MapFile_unix cfg_plain unix_file_of_4GiB ''big'' \<lparr>base = 7, size' = 7\<rparr>)
       = \<lparr>base = 0x10000, size' = 4294967296\<rparr>"
  by (simp add: win32_defs unix_defs platform_defs win32_file_of_4GiB_def
      unix_file_of_4GiB_def)

subsection \<open>C10: which fields of the region \<^verbatim>\<open>Free\<close> reads\<close>

text \<open>
  C10. On Win32 \<^verbatim>\<open>Free\<close> reads the base only: two regions with the same base give the
  same result and the same trace, whatever their sizes, and the one native release call is
  \<^verbatim>\<open>VirtualFree\<close> of the base. On Unix the native release call is \<^verbatim>\<open>munmap\<close> of the
  base and the size, and there is a platform and two regions with the same base on which
  the results of \<^verbatim>\<open>Free\<close> differ.
\<close>

theorem Free_and_the_size_field:
  "(base r1 = base r2 \<longrightarrow> Free_win32 cfg nw r1 = Free_win32 cfg nw r2)
   \<and> filter is_release_call_win32 (trace (Free_win32 cfg nw r))
       = [W_VirtualFree (base r) (os_VirtualFree nw (base r) 0 [MEM_RELEASE])]
   \<and> filter is_release_call_unix (trace (Free_unix cfg nu r))
       = [U_munmap (base r) (size' r) (os_munmap nu (base r) (size' r))]
   \<and> (\<exists>n a b. base a = base b \<and> ret (Free_unix cfg n a) \<noteq> ret (Free_unix cfg n b))"
proof (intro conjI impI)
  assume "base r1 = base r2"
  then show "Free_win32 cfg nw r1 = Free_win32 cfg nw r2"
    by (simp add: Free_win32_def Let_def)
next
  show "filter is_release_call_win32 (trace (Free_win32 cfg nw r))
       = [W_VirtualFree (base r) (os_VirtualFree nw (base r) 0 [MEM_RELEASE])]"
    by (simp add: Free_win32_def Let_def)
next
  show "filter is_release_call_unix (trace (Free_unix cfg nu r))
       = [U_munmap (base r) (size' r) (os_munmap nu (base r) (size' r))]"
    by (simp add: Free_unix_def Let_def)
next
  have "base \<lparr>base = 0x10000, size' = 4096\<rparr> = base \<lparr>base = 0x10000, size' = 8192\<rparr>
    \<and> ret (Free_unix cfg unix_exact_length \<lparr>base = 0x10000, size' = 4096\<rparr>)
      \<noteq> ret (Free_unix cfg unix_exact_length \<lparr>base = 0x10000, size' = 8192\<rparr>)"
    by (simp add: Free_unix_def platform_defs unix_exact_length_def)
  then show "\<exists>n a b. base a = base b \<and> ret (Free_unix cfg n a) \<noteq> ret (Free_unix cfg n b)"
    by blast
qed

text \<open>
  C10, witness: the same base with the sizes 4096 and 8192, on a Unix platform whose
  \<^verbatim>\<open>munmap\<close> accepts the length 4096 only.
\<close>

theorem Free_and_the_size_field_witness:
  "base \<lparr>base = 0x10000, size' = 4096\<rparr> = base \<lparr>base = 0x10000, size' = 8192\<rparr>
   \<and> Free_win32 cfg_plain win32_granting \<lparr>base = 0x10000, size' = 4096\<rparr>
       = Free_win32 cfg_plain win32_granting \<lparr>base = 0x10000, size' = 8192\<rparr>
   \<and> trace (Free_win32 cfg_plain win32_granting \<lparr>base = 0x10000, size' = 8192\<rparr>)
       = [W_VirtualFree 0x10000 1]
   \<and> trace (Free_unix cfg_plain unix_exact_length \<lparr>base = 0x10000, size' = 4096\<rparr>)
       = [U_munmap 0x10000 4096 0]
   \<and> ret (Free_unix cfg_plain unix_exact_length \<lparr>base = 0x10000, size' = 4096\<rparr>)
   \<and> \<not> ret (Free_unix cfg_plain unix_exact_length \<lparr>base = 0x10000, size' = 8192\<rparr>)"
  using Free_and_the_size_field [where ?r1.0 = "\<lparr>base = 0x10000, size' = 4096\<rparr>"
      and ?r2.0 = "\<lparr>base = 0x10000, size' = 8192\<rparr>" and cfg = cfg_plain and nw = win32_granting
      and r = "\<lparr>base = 0x10000, size' = 8192\<rparr>" and nu = unix_exact_length]
  by (simp add: Free_win32_def Free_unix_def platform_defs unix_exact_length_def
      win32_granting_def)

end
